theory Spec2Isabelle
  imports Main "HOL-Library.AList"
begin

section \<open>Python values, dictionaries and exceptions\<close>

text \<open>
  The values a field can be handed. A Python \<open>float\<close> is kept as an opaque pair
  (mantissa, binary exponent) and a \<open>datetime.datetime\<close> as a number of microseconds:
  the ORM only tests their type. Python's \<open>bool\<close> is a subclass of \<open>int\<close>, which
  \<open>is_int\<close> reflects. A \<open>str\<close> is a list of characters, one \<open>char\<close> per code point.
\<close>

datatype pyval =
    VNone
  | VBool bool
  | VInt int
  | VStr string
  | VFloat int int
  | VDateTime int

type_synonym pydict = "(string \<times> pyval) list"

text \<open>\<open>isinstance(value, int)\<close>, and so \<open>isinstance(value, (bool, int))\<close> as well.\<close>

fun is_int :: "pyval \<Rightarrow> bool" where
  "is_int (VBool b) = True"
| "is_int (VInt n) = True"
| "is_int v = False"

fun is_str :: "pyval \<Rightarrow> bool" where
  "is_str (VStr s) = True"
| "is_str v = False"

fun is_float :: "pyval \<Rightarrow> bool" where
  "is_float (VFloat m e) = True"
| "is_float v = False"

fun is_datetime :: "pyval \<Rightarrow> bool" where
  "is_datetime (VDateTime t) = True"
| "is_datetime v = False"

text \<open>The integer an \<open>int\<close> instance compares equal to: \<open>True == 1\<close>, \<open>False == 0\<close>.\<close>

fun int_of :: "pyval \<Rightarrow> int" where
  "int_of (VBool b) = (if b then 1 else 0)"
| "int_of (VInt n) = n"
| "int_of v = 0"

text \<open>\<open>value in (0, 1)\<close> and \<open>bool(value)\<close>, for a value that is an \<open>int\<close> instance.\<close>

definition in_0_1 :: "pyval \<Rightarrow> bool" where
  "in_0_1 v = (int_of v = 0 \<or> int_of v = 1)"

definition py_bool :: "pyval \<Rightarrow> pyval" where
  "py_bool v = VBool (int_of v \<noteq> 0)"

text \<open>\<open>len(value)\<close> of a string, as a Python integer.\<close>

fun py_len :: "pyval \<Rightarrow> int" where
  "py_len (VStr s) = int (length s)"
| "py_len v = 0"

text \<open>
  A \<open>dict\<close> is an association list in insertion order: \<open>d[k] = v\<close> is \<open>AList.update\<close>
  (in place for a key that is there, at the end for a new one), \<open>d.get(k, x)\<close> and
  \<open>d.pop(k, x)\<close> are below.
\<close>

definition dict_get :: "('k \<times> 'v) list \<Rightarrow> 'k \<Rightarrow> 'v \<Rightarrow> 'v" where
  "dict_get d k x = (case map_of d k of None \<Rightarrow> x | Some v \<Rightarrow> v)"

definition dict_pop :: "('k \<times> 'v) list \<Rightarrow> 'k \<Rightarrow> 'v \<Rightarrow> 'v \<times> ('k \<times> 'v) list" where
  "dict_pop d k x = (case map_of d k of None \<Rightarrow> (x, d) | Some v \<Rightarrow> (v, AList.delete k d))"

text \<open>
  Every \<open>raise\<close> of the package, with the data its message is formatted from, and the
  failures of the storage engine behind \<open>Database\<close>.
\<close>

datatype error =
    CannotBeNone string
  | MustBeInteger string
  | MustBeString string
  | ExceedsLength string int
  | MustBeBoolOrInt string
  | MustBeZeroOne string
  | MustBeDatetime string
  | MustBeNumber string
  | UnexpectedKeywords "string list"
  | NoPrimaryKey string
  | NoFieldNamed string string
  | NotConnected
  | StorageError string

datatype exc_class = ValueError | TypeError | RuntimeError | EngineError

fun exc_class_of :: "error \<Rightarrow> exc_class" where
  "exc_class_of (UnexpectedKeywords ks) = TypeError"
| "exc_class_of NotConnected = RuntimeError"
| "exc_class_of (StorageError s) = EngineError"
| "exc_class_of e = ValueError"

section \<open>Fields (orm/fields.py)\<close>

text \<open>
  The subclasses of \<open>Field\<close> with the constructor arguments of their own:
  \<open>StringField max_length\<close> and \<open>DateTimeField auto_now auto_now_add\<close>.
\<close>

datatype kind =
    Field
  | IntegerField
  | StringField int
  | BooleanField
  | DateTimeField bool bool
  | FloatField

text \<open>The arguments of \<open>Field.__init__\<close>; \<open>arg_name\<close> is \<open>None\<close> when no column name is given.\<close>

record field_args =
  arg_kind :: kind
  arg_name :: "string option"
  arg_primary_key :: bool
  arg_nullable :: bool
  arg_default :: pyval

text \<open>A descriptor once the class body has bound it to an attribute.\<close>

record field =
  kind :: kind
  name :: string
  attr_name :: string
  primary_key :: bool
  nullable :: bool
  default :: pyval

text \<open>\<open>Field.__set_name__\<close>: the attribute name, and the column name if none was given.\<close>

definition set_name :: "string \<Rightarrow> field_args \<Rightarrow> field" where
  "set_name n a =
     \<lparr>kind = arg_kind a,
      name = (case arg_name a of None \<Rightarrow> n | Some c \<Rightarrow> c),
      attr_name = n,
      primary_key = arg_primary_key a,
      nullable = arg_nullable a,
      default = arg_default a\<rparr>"

text \<open>\<open>validate\<close> of each class, in the order of the source's tests.\<close>

fun validate :: "field \<Rightarrow> pyval \<Rightarrow> error + unit" where
  "validate f v =
     (case kind f of
        Field \<Rightarrow> Inr ()
      | IntegerField \<Rightarrow>
          if v \<noteq> VNone \<and> \<not> is_int v then Inl (MustBeInteger (attr_name f)) else Inr ()
      | StringField max_length \<Rightarrow>
          if v \<noteq> VNone then
            (if \<not> is_str v then Inl (MustBeString (attr_name f))
             else if py_len v > max_length then Inl (ExceedsLength (attr_name f) max_length)
             else Inr ())
          else Inr ()
      | BooleanField \<Rightarrow>
          if v \<noteq> VNone then
            (if \<not> is_int v then Inl (MustBeBoolOrInt (attr_name f))
             else if is_int v \<and> \<not> in_0_1 v then Inl (MustBeZeroOne (attr_name f))
             else Inr ())
          else Inr ()
      | DateTimeField auto_now auto_now_add \<Rightarrow>
          if v \<noteq> VNone \<and> \<not> is_datetime v then Inl (MustBeDatetime (attr_name f)) else Inr ()
      | FloatField \<Rightarrow>
          if v \<noteq> VNone \<and> \<not> (is_int v \<or> is_float v) then Inl (MustBeNumber (attr_name f))
          else Inr ())"

text \<open>\<open>Field.__get__\<close> on an instance, whose \<open>__dict__\<close> is the argument.\<close>

definition field_get :: "field \<Rightarrow> pydict \<Rightarrow> pyval" where
  "field_get f inst = dict_get inst (attr_name f) (default f)"

text \<open>\<open>Field.__set__\<close>, inherited by every class but \<open>BooleanField\<close>.\<close>

definition Field_set :: "field \<Rightarrow> pydict \<Rightarrow> pyval \<Rightarrow> error + pydict" where
  "Field_set f inst v =
     (if \<not> nullable f \<and> v = VNone then Inl (CannotBeNone (attr_name f))
      else case validate f v of
             Inl e \<Rightarrow> Inl e
           | Inr u \<Rightarrow> Inr (AList.update (attr_name f) v inst))"

text \<open>\<open>BooleanField.__set__\<close>: an \<open>int\<close> instance is stored as \<open>bool(value)\<close>.\<close>

definition BooleanField_set :: "field \<Rightarrow> pydict \<Rightarrow> pyval \<Rightarrow> error + pydict" where
  "BooleanField_set f inst v =
     (if \<not> nullable f \<and> v = VNone then Inl (CannotBeNone (attr_name f))
      else case validate f v of
             Inl e \<Rightarrow> Inl e
           | Inr u \<Rightarrow>
               Inr (AList.update (attr_name f) (if is_int v then py_bool v else v) inst))"

text \<open>
  \<open>setattr(instance, f._attr_name, v)\<close>: the class holds the descriptor \<open>f\<close> under that
  name, so the assignment is \<open>f.__set__\<close>, of the class of \<open>f\<close>.
\<close>

definition field_set :: "field \<Rightarrow> pydict \<Rightarrow> pyval \<Rightarrow> error + pydict" where
  "field_set f inst v =
     (if kind f = BooleanField then BooleanField_set f inst v else Field_set f inst v)"

section \<open>Model classes (orm/models.py)\<close>

text \<open>
  A class statement under \<open>@model_fields\<close>: its name, the \<open>__table__\<close> it or a base
  class assigns (if any) and the attributes of its body, which are descriptors or
  anything else (methods, constants).
\<close>

datatype attr = FieldAttr field_args | OtherAttr

record class_decl =
  cls_name :: string
  cls_table :: "string option"
  cls_attrs :: "(string \<times> attr) list"

text \<open>The decorated class: \<open>__name__\<close>, \<open>__table__\<close>, \<open>__fields__\<close>, \<open>__primary_key__\<close>.\<close>

record model_class =
  m_name :: string
  m_table :: string
  m_fields :: "(string \<times> field) list"
  m_primary_key :: "field option"

text \<open>\<open>str.lower\<close> on the letters A to Z.\<close>

definition lower_char :: "char \<Rightarrow> char" where
  "lower_char c =
     (if (65::nat) \<le> of_char c \<and> of_char c \<le> (90::nat) then char_of (of_char c + (32::nat)) else c)"

definition lower :: "string \<Rightarrow> string" where
  "lower s = map lower_char s"

text \<open>
  The loop of \<open>model_fields\<close> over \<open>cls.__dict__.items()\<close>, carrying \<open>fields\<close> (here \<open>flds\<close>) and
  \<open>primary_key\<close> (here \<open>pk\<close>).
\<close>

fun collect_fields ::
  "(string \<times> attr) list \<Rightarrow> (string \<times> field) list \<Rightarrow> field option
     \<Rightarrow> (string \<times> field) list \<times> field option" where
  "collect_fields [] flds pk = (flds, pk)"
| "collect_fields ((attr_n, OtherAttr) # rest) flds pk = collect_fields rest flds pk"
| "collect_fields ((attr_n, FieldAttr a) # rest) flds pk =
     (let f = set_name attr_n a
      in collect_fields rest (AList.update attr_n f flds) (if primary_key f then Some f else pk))"

text \<open>
  \<open>model_fields\<close>. No statement of it raises, so the result is always \<open>Inr\<close>; the sum
  type is there to say so.
\<close>

definition model_fields :: "class_decl \<Rightarrow> error + model_class" where
  "model_fields cls =
     (case collect_fields (cls_attrs cls) [] None of
        (flds, pk) \<Rightarrow>
          Inr \<lparr>m_name = cls_name cls,
               m_table = (case cls_table cls of
                            Some t \<Rightarrow> t
                          | None \<Rightarrow> lower (cls_name cls) @ ''s''),
               m_fields = flds,
               m_primary_key = pk\<rparr>)"

text \<open>
  The loop of \<open>Model.__init__\<close>: each declared field is assigned the keyword argument
  popped for it, or its default; the first assignment that raises ends the construction.
  It returns the instance's \<open>__dict__\<close> and the keyword arguments left over.
\<close>

fun init_fields :: "(string \<times> field) list \<Rightarrow> pydict \<Rightarrow> pydict \<Rightarrow> error + (pydict \<times> pydict)" where
  "init_fields [] kwargs inst = Inr (inst, kwargs)"
| "init_fields ((field_name, f) # rest) kwargs inst =
     (case dict_pop kwargs field_name (default f) of
        (v, kwargs') \<Rightarrow>
          (case field_set f inst v of
             Inl e \<Rightarrow> Inl e
           | Inr inst' \<Rightarrow> init_fields rest kwargs' inst'))"

definition Model_init :: "model_class \<Rightarrow> pydict \<Rightarrow> error + pydict" where
  "Model_init cls kwargs =
     (case init_fields (m_fields cls) kwargs [] of
        Inl e \<Rightarrow> Inl e
      | Inr (inst, kwargs') \<Rightarrow>
          if kwargs' \<noteq> [] then Inl (UnexpectedKeywords (map fst kwargs')) else Inr inst)"

section \<open>Queries (orm/query.py)\<close>

text \<open>
  \<open>sep.join(xs)\<close> and \<open>str(n)\<close> of an integer, which the f-strings of the SQL builder
  use.
\<close>

fun str_join :: "string \<Rightarrow> string list \<Rightarrow> string" where
  "str_join sep [] = []"
| "str_join sep [x] = x"
| "str_join sep (x # y # ys) = x @ sep @ str_join sep (y # ys)"

definition digit_char :: "nat \<Rightarrow> char" where
  "digit_char d = char_of (48 + d)"

function str_nat :: "nat \<Rightarrow> string" where
  "str_nat n = (if n < 10 then [digit_char n] else str_nat (n div 10) @ [digit_char (n mod 10)])"
  by pat_completeness auto
termination
  by (relation "measure (\<lambda>n. n)") auto

definition str_int :: "int \<Rightarrow> string" where
  "str_int i = (if i < 0 then ''-'' @ str_nat (nat (- i)) else str_nat (nat i))"

text \<open>
  A \<open>Query\<close> is a mutable object and so are the two lists it holds, which \<open>_clone\<close>
  copies. The store keeps the \<open>Query\<close> objects and the list objects by address (the
  index in the store); an attribute \<open>_filters\<close> or \<open>_filter_params\<close> is the address of
  a list. A result of a builder call is the address of a \<open>Query\<close>.
\<close>

record query =
  model_class :: model_class
  q_filters :: nat
  q_filter_params :: nat
  q_order_by :: "string option"
  q_limit :: "int option"
  q_offset :: "int option"

record store =
  queries :: "query list"
  str_lists :: "string list list"
  val_lists :: "pyval list list"

definition empty_store :: store where
  "empty_store = \<lparr>queries = [], str_lists = [], val_lists = []\<rparr>"

definition new_strs :: "string list \<Rightarrow> store \<Rightarrow> nat \<times> store" where
  "new_strs xs s = (length (str_lists s), s\<lparr>str_lists := str_lists s @ [xs]\<rparr>)"

definition new_vals :: "pyval list \<Rightarrow> store \<Rightarrow> nat \<times> store" where
  "new_vals xs s = (length (val_lists s), s\<lparr>val_lists := val_lists s @ [xs]\<rparr>)"

definition new_query :: "query \<Rightarrow> store \<Rightarrow> nat \<times> store" where
  "new_query q s = (length (queries s), s\<lparr>queries := queries s @ [q]\<rparr>)"

definition get_strs :: "store \<Rightarrow> nat \<Rightarrow> string list" where
  "get_strs s a = str_lists s ! a"

definition get_vals :: "store \<Rightarrow> nat \<Rightarrow> pyval list" where
  "get_vals s a = val_lists s ! a"

definition get_query :: "store \<Rightarrow> nat \<Rightarrow> query" where
  "get_query s a = queries s ! a"

definition set_strs :: "nat \<Rightarrow> string list \<Rightarrow> store \<Rightarrow> store" where
  "set_strs a xs s = s\<lparr>str_lists := (str_lists s)[a := xs]\<rparr>"

definition set_vals :: "nat \<Rightarrow> pyval list \<Rightarrow> store \<Rightarrow> store" where
  "set_vals a xs s = s\<lparr>val_lists := (val_lists s)[a := xs]\<rparr>"

definition set_query :: "nat \<Rightarrow> query \<Rightarrow> store \<Rightarrow> store" where
  "set_query a q s = s\<lparr>queries := (queries s)[a := q]\<rparr>"

text \<open>
  \<open>Query.__init__\<close>: two fresh empty lists and the new object. (The reference to the
  database is passed to the terminal operations instead of being kept in the object.)
\<close>

definition Query_init :: "model_class \<Rightarrow> store \<Rightarrow> nat \<times> store" where
  "Query_init cls s =
     (case new_strs [] s of
        (fl, s1) \<Rightarrow>
          (case new_vals [] s1 of
             (fp, s2) \<Rightarrow>
               new_query \<lparr>model_class = cls, q_filters = fl, q_filter_params = fp,
                          q_order_by = None, q_limit = None, q_offset = None\<rparr> s2))"

text \<open>
  \<open>Query._clone\<close>: a new \<open>Query\<close>, whose list attributes are then rebound to copies of
  the lists of \<open>self\<close> and whose other attributes are assigned those of \<open>self\<close>.
\<close>

definition Query_clone :: "nat \<Rightarrow> store \<Rightarrow> nat \<times> store" where
  "Query_clone self s =
     (case Query_init (model_class (get_query s self)) s of
        (query, s1) \<Rightarrow>
          (case new_strs (get_strs s1 (q_filters (get_query s1 self))) s1 of
             (fl, s2) \<Rightarrow>
               (case new_vals (get_vals s2 (q_filter_params (get_query s2 self))) s2 of
                  (fp, s3) \<Rightarrow>
                    (query,
                     set_query query
                       ((get_query s3 query)
                          \<lparr>q_filters := fl, q_filter_params := fp,
                           q_order_by := q_order_by (get_query s3 self),
                           q_limit := q_limit (get_query s3 self),
                           q_offset := q_offset (get_query s3 self)\<rparr>) s3))))"

text \<open>\<open>Query.filter\<close>: the conditions are appended to the list of the clone.\<close>

definition Query_filter :: "nat \<Rightarrow> string list \<Rightarrow> store \<Rightarrow> nat \<times> store" where
  "Query_filter self conditions s =
     (case Query_clone self s of
        (query, s1) \<Rightarrow>
          (query,
           set_strs (q_filters (get_query s1 query))
             (get_strs s1 (q_filters (get_query s1 query)) @ conditions) s1))"

text \<open>
  The loop of \<open>Query.filter_by\<close> over \<open>kwargs.items()\<close>. A name that is not a field
  raises; what was appended to the clone's lists before stays in the store.
\<close>

fun filter_by_loop :: "model_class \<Rightarrow> nat \<Rightarrow> pydict \<Rightarrow> store \<Rightarrow> error option \<times> store" where
  "filter_by_loop cls query [] s = (None, s)"
| "filter_by_loop cls query ((attr_n, v) # rest) s =
     (case map_of (m_fields cls) attr_n of
        None \<Rightarrow> (Some (NoFieldNamed (m_name cls) attr_n), s)
      | Some f \<Rightarrow>
          filter_by_loop cls query rest
            (set_vals (q_filter_params (get_query s query))
               (get_vals s (q_filter_params (get_query s query)) @ [v])
               (set_strs (q_filters (get_query s query))
                  (get_strs s (q_filters (get_query s query)) @ [name f @ '' = ?'']) s)))"

definition Query_filter_by :: "nat \<Rightarrow> pydict \<Rightarrow> store \<Rightarrow> (error + nat) \<times> store" where
  "Query_filter_by self kwargs s =
     (case Query_clone self s of
        (query, s1) \<Rightarrow>
          (case filter_by_loop (model_class (get_query s1 self)) query kwargs s1 of
             (Some e, s2) \<Rightarrow> (Inl e, s2)
           | (None, s2) \<Rightarrow> (Inr query, s2)))"

text \<open>\<open>Query.order_by\<close>, \<open>Query.limit\<close> and \<open>Query.offset\<close>.\<close>

definition Query_order_by :: "nat \<Rightarrow> string \<Rightarrow> bool \<Rightarrow> store \<Rightarrow> (error + nat) \<times> store" where
  "Query_order_by self field_name ascending s =
     (case Query_clone self s of
        (query, s1) \<Rightarrow>
          (case map_of (m_fields (model_class (get_query s1 self))) field_name of
             None \<Rightarrow> (Inl (NoFieldNamed (m_name (model_class (get_query s1 self))) field_name), s1)
           | Some f \<Rightarrow>
               (Inr query,
                set_query query
                  ((get_query s1 query)
                     \<lparr>q_order_by :=
                        Some (name f @ '' '' @ (if ascending then ''ASC'' else ''DESC''))\<rparr>) s1)))"

definition Query_limit :: "nat \<Rightarrow> int \<Rightarrow> store \<Rightarrow> nat \<times> store" where
  "Query_limit self lim s =
     (case Query_clone self s of
        (query, s1) \<Rightarrow>
          (query, set_query query ((get_query s1 query)\<lparr>q_limit := Some lim\<rparr>) s1))"

definition Query_offset :: "nat \<Rightarrow> int \<Rightarrow> store \<Rightarrow> nat \<times> store" where
  "Query_offset self off s =
     (case Query_clone self s of
        (query, s1) \<Rightarrow>
          (query, set_query query ((get_query s1 query)\<lparr>q_offset := Some off\<rparr>) s1))"

text \<open>
  \<open>Query._build_sql\<close>. \<open>sql_parts\<close> grows by \<open>append\<close> under the source's four tests;
  an \<open>_order_by\<close> that is \<open>None\<close> or the empty string is false.
\<close>

definition Query_build_sql :: "nat \<Rightarrow> store \<Rightarrow> string \<times> pyval list" where
  "Query_build_sql self s =
     (let q = get_query s self;
          flds = map (\<lambda>(n, f). name f) (m_fields (model_class q));
          select_sql = ''SELECT '' @ str_join '', '' flds @ '' FROM '' @ m_table (model_class q);
          parts1 = [select_sql];
          parts2 = (if get_strs s (q_filters q) \<noteq> []
                    then parts1 @ [''WHERE '' @ str_join '' AND '' (get_strs s (q_filters q))]
                    else parts1);
          parts3 = (case q_order_by q of
                      None \<Rightarrow> parts2
                    | Some ob \<Rightarrow> if ob \<noteq> [] then parts2 @ [''ORDER BY '' @ ob] else parts2);
          parts4 = (case q_limit q of
                      None \<Rightarrow> parts3
                    | Some lim \<Rightarrow> parts3 @ [''LIMIT '' @ str_int lim]);
          parts5 = (case q_offset q of
                      None \<Rightarrow> parts4
                    | Some off \<Rightarrow>
                        (if q_limit q = None then parts4 @ [''LIMIT -1''] else parts4)
                          @ [''OFFSET '' @ str_int off])
      in (str_join '' '' parts5, get_vals s (q_filter_params q)))"

text \<open>What a \<open>Query\<close> object holds: filters, parameters, order, limit and offset.\<close>

definition snapshot ::
  "store \<Rightarrow> nat \<Rightarrow> string list \<times> pyval list \<times> string option \<times> int option \<times> int option" where
  "snapshot s a =
     (get_strs s (q_filters (get_query s a)),
      get_vals s (q_filter_params (get_query s a)),
      q_order_by (get_query s a),
      q_limit (get_query s a),
      q_offset (get_query s a))"

text \<open>The addresses of a \<open>Query\<close> and of its lists are allocated.\<close>

definition valid_query :: "store \<Rightarrow> nat \<Rightarrow> bool" where
  "valid_query s a =
     (a < length (queries s) \<and>
      q_filters (get_query s a) < length (str_lists s) \<and>
      q_filter_params (get_query s a) < length (val_lists s))"

text \<open>Every object of the store \<open>s\<close> is in \<open>s'\<close>, at its address and with its content.\<close>

definition preserved :: "store \<Rightarrow> store \<Rightarrow> bool" where
  "preserved s s' =
     (take (length (queries s)) (queries s') = queries s \<and>
      take (length (str_lists s)) (str_lists s') = str_lists s \<and>
      take (length (val_lists s)) (val_lists s') = val_lists s)"

section \<open>The database (orm/db.py)\<close>

text \<open>
  The storage engine is outside the package: \<open>sqlite3\<close> executes a statement with its
  parameters on the connection and gives back a cursor, or raises. It is a parameter
  here, a function of the state of the connection. Of a cursor the package reads
  \<open>lastrowid\<close> and the rows it fetches (a row is a dictionary from column names).
\<close>

record cursor =
  lastrowid :: int
  rows :: "pydict list"

type_synonym 's engine = "string \<Rightarrow> pyval list \<Rightarrow> 's \<Rightarrow> error + (cursor \<times> 's)"

text \<open>
  A \<open>Database\<close>: whether \<open>_cursor\<close> is set (after \<open>connect\<close>), and the state of the
  connection.
\<close>

record 's database =
  cursor_open :: bool
  conn :: 's

text \<open>\<open>Database.execute\<close>, \<open>Database.fetch_one\<close> and the truth value of a row.\<close>

definition execute ::
  "'s engine \<Rightarrow> 's database \<Rightarrow> string \<Rightarrow> pyval list \<Rightarrow> (error + cursor) \<times> 's database" where
  "execute E db sql params =
     (if \<not> cursor_open db then (Inl NotConnected, db)
      else case E sql params (conn db) of
             Inl e \<Rightarrow> (Inl e, db)
           | Inr (cur, st) \<Rightarrow> (Inr cur, db\<lparr>conn := st\<rparr>))"




section \<open>Persistence (orm/models.py) and fetching (orm/query.py)\<close>





definition Model_delete ::
  "'s engine \<Rightarrow> model_class \<Rightarrow> pydict \<Rightarrow> 's database \<Rightarrow> error option \<times> pydict \<times> 's database" where
  "Model_delete E cls inst db =
     (case m_primary_key cls of
        None \<Rightarrow> (Some (NoPrimaryKey (m_name cls)), inst, db)
      | Some pk \<Rightarrow>
          (let pk_name = name pk;
               pk_value = field_get pk inst;
               delete_sql = ''DELETE FROM '' @ m_table cls @ '' WHERE '' @ pk_name @ '' = ?''
           in case execute E db delete_sql [pk_value] of
                (Inl e, db') \<Rightarrow> (Some e, inst, db')
              | (Inr cur, db') \<Rightarrow>
                  (case field_set pk inst VNone of
                     Inl e \<Rightarrow> (Some e, inst, db')
                   | Inr inst' \<Rightarrow> (None, inst', db'))))"






section \<open>Declared classes and auxiliary notions\<close>

text \<open>
  The descriptors a class body declares, in declaration order, each bound to its
  attribute by \<open>__set_name__\<close>.
\<close>

fun declared :: "(string \<times> attr) list \<Rightarrow> field list" where
  "declared [] = []"
| "declared ((attr_n, OtherAttr) # rest) = declared rest"
| "declared ((attr_n, FieldAttr a) # rest) = set_name attr_n a # declared rest"

text \<open>
  \<open>TestModel\<close> of tests/test_orm.py: the class statement, with the attributes of its
  body in order, and below the class \<open>model_fields\<close> makes of it.
\<close>

definition TestModel_decl :: class_decl where
  "TestModel_decl =
     \<lparr>cls_name = ''TestModel'', cls_table = Some ''test_models'',
      cls_attrs =
        [(''__module__'', OtherAttr),
         (''__qualname__'', OtherAttr),
         (''__table__'', OtherAttr),
         (''id'', FieldAttr \<lparr>arg_kind = IntegerField, arg_name = None, arg_primary_key = True,
                              arg_nullable = True, arg_default = VNone\<rparr>),
         (''name'', FieldAttr \<lparr>arg_kind = StringField 100, arg_name = None, arg_primary_key = False,
                                arg_nullable = False, arg_default = VNone\<rparr>),
         (''description'', FieldAttr \<lparr>arg_kind = StringField 500, arg_name = None,
                                arg_primary_key = False, arg_nullable = True, arg_default = VNone\<rparr>),
         (''active'', FieldAttr \<lparr>arg_kind = BooleanField, arg_name = None, arg_primary_key = False,
                                arg_nullable = True, arg_default = VBool True\<rparr>),
         (''price'', FieldAttr \<lparr>arg_kind = FloatField, arg_name = None, arg_primary_key = False,
                                arg_nullable = True, arg_default = VFloat 0 0\<rparr>)]\<rparr>"

text \<open>
  A bound descriptor whose column name is its attribute name.
\<close>

definition mk_field :: "kind \<Rightarrow> string \<Rightarrow> bool \<Rightarrow> bool \<Rightarrow> pyval \<Rightarrow> field" where
  "mk_field k n pk nl d =
     \<lparr>kind = k, name = n, attr_name = n, primary_key = pk, nullable = nl, default = d\<rparr>"

definition TestModel :: model_class where
  "TestModel =
     \<lparr>m_name = ''TestModel'', m_table = ''test_models'',
      m_fields =
        [(''id'', mk_field IntegerField ''id'' True True VNone),
         (''name'', mk_field (StringField 100) ''name'' False False VNone),
         (''description'', mk_field (StringField 500) ''description'' False True VNone),
         (''active'', mk_field BooleanField ''active'' False True (VBool True)),
         (''price'', mk_field FloatField ''price'' False True (VFloat 0 0))],
      m_primary_key = Some (mk_field IntegerField ''id'' True True VNone)\<rparr>"

text \<open>
  A field dictionary has distinct names and holds each descriptor under its attribute
  name.
\<close>

definition wf_fields :: "(string \<times> field) list \<Rightarrow> bool" where
  "wf_fields fs = (distinct (map fst fs) \<and> list_all (\<lambda>(n, f). attr_name f = n) fs)"

text \<open>
  \<open>User\<close> of main.py, and the keyword arguments main.py constructs its user with
  (the balance 100.50 is 201 / 2).
\<close>

definition User_decl :: class_decl where
  "User_decl =
     \<lparr>cls_name = ''User'', cls_table = Some ''users'',
      cls_attrs =
        [(''__module__'', OtherAttr),
         (''__qualname__'', OtherAttr),
         (''__table__'', OtherAttr),
         (''id'', FieldAttr \<lparr>arg_kind = IntegerField, arg_name = None, arg_primary_key = True,
                              arg_nullable = True, arg_default = VNone\<rparr>),
         (''username'', FieldAttr \<lparr>arg_kind = StringField 50, arg_name = None,
                              arg_primary_key = False, arg_nullable = False, arg_default = VNone\<rparr>),
         (''email'', FieldAttr \<lparr>arg_kind = StringField 100, arg_name = None,
                              arg_primary_key = False, arg_nullable = False, arg_default = VNone\<rparr>),
         (''password'', FieldAttr \<lparr>arg_kind = StringField 100, arg_name = None,
                              arg_primary_key = False, arg_nullable = False, arg_default = VNone\<rparr>),
         (''is_active'', FieldAttr \<lparr>arg_kind = BooleanField, arg_name = None,
                              arg_primary_key = False, arg_nullable = True, arg_default = VBool True\<rparr>),
         (''created_at'', FieldAttr \<lparr>arg_kind = DateTimeField False True, arg_name = None,
                              arg_primary_key = False, arg_nullable = True, arg_default = VNone\<rparr>),
         (''updated_at'', FieldAttr \<lparr>arg_kind = DateTimeField False True, arg_name = None,
                              arg_primary_key = False, arg_nullable = True, arg_default = VNone\<rparr>),
         (''balance'', FieldAttr \<lparr>arg_kind = FloatField, arg_name = None,
                              arg_primary_key = False, arg_nullable = True, arg_default = VFloat 0 0\<rparr>)]\<rparr>"

definition User :: model_class where
  "User =
     \<lparr>m_name = ''User'', m_table = ''users'',
      m_fields =
        [(''id'', mk_field IntegerField ''id'' True True VNone),
         (''username'', mk_field (StringField 50) ''username'' False False VNone),
         (''email'', mk_field (StringField 100) ''email'' False False VNone),
         (''password'', mk_field (StringField 100) ''password'' False False VNone),
         (''is_active'', mk_field BooleanField ''is_active'' False True (VBool True)),
         (''created_at'', mk_field (DateTimeField False True) ''created_at'' False True VNone),
         (''updated_at'', mk_field (DateTimeField False True) ''updated_at'' False True VNone),
         (''balance'', mk_field FloatField ''balance'' False True (VFloat 0 0))],
      m_primary_key = Some (mk_field IntegerField ''id'' True True VNone)\<rparr>"

definition johndoe_kwargs :: pydict where
  "johndoe_kwargs =
     [(''username'', VStr ''johndoe''),
      (''email'', VStr ''john@example.com''),
      (''password'', VStr ''secure123''),
      (''balance'', VFloat 201 (- 1))]"

text \<open>
  A class with two fields marked as primary key:
  \<^verbatim>\<open>
  @model_fields
  class TwoKeys(Model):
      a = IntegerField(primary_key=True)
      b = IntegerField(primary_key=True)
  \<close>
\<close>

definition TwoKeys_decl :: class_decl where
  "TwoKeys_decl =
     \<lparr>cls_name = ''TwoKeys'', cls_table = None,
      cls_attrs =
        [(''a'', FieldAttr \<lparr>arg_kind = IntegerField, arg_name = None, arg_primary_key = True,
                             arg_nullable = True, arg_default = VNone\<rparr>),
         (''b'', FieldAttr \<lparr>arg_kind = IntegerField, arg_name = None, arg_primary_key = True,
                             arg_nullable = True, arg_default = VNone\<rparr>)]\<rparr>"

text \<open>
  The column a keyword of \<open>filter_by\<close> or the name given to \<open>order_by\<close> stands for,
  and whether the name is a field of the class.
\<close>

definition column :: "model_class \<Rightarrow> string \<Rightarrow> string" where
  "column cls attr_n = (case map_of (m_fields cls) attr_n of None \<Rightarrow> attr_n | Some f \<Rightarrow> name f)"

definition is_field :: "model_class \<Rightarrow> string \<Rightarrow> bool" where
  "is_field cls attr_n = (map_of (m_fields cls) attr_n \<noteq> None)"

text \<open>
  The store after \<open>TestModel.select(db)\<close> in an empty store: the query has the
  address 0.
\<close>

definition base_store :: store where
  "base_store = snd (Query_init TestModel empty_store)"



definition delete_statement :: "model_class \<Rightarrow> field \<Rightarrow> pydict \<Rightarrow> string \<times> pyval list" where
  "delete_statement cls pk inst =
     (''DELETE FROM '' @ m_table cls @ '' WHERE '' @ name pk @ '' = ?'', [field_get pk inst])"

text \<open>
  A stand-in for the storage engine, for running the methods on examples: it records
  the statements it is given, numbers the rows it inserts from 1 and answers every
  statement with the rows it holds.
\<close>

record recorder =
  executed :: "(string \<times> pyval list) list"
  rowid :: int
  held_rows :: "pydict list"

definition recording_engine :: "recorder engine" where
  "recording_engine sql params st =
     Inr (\<lparr>lastrowid = rowid st + 1, rows = held_rows st\<rparr>,
          st\<lparr>executed := executed st @ [(sql, params)], rowid := rowid st + 1\<rparr>)"

definition fresh_db :: "recorder database" where
  "fresh_db = \<lparr>cursor_open = True, conn = \<lparr>executed = [], rowid = 0, held_rows = []\<rparr>\<rparr>"

text \<open>
  A class whose primary key is a string, and a class whose primary key is not nullable:
  \<^verbatim>\<open>
  @model_fields
  class Tag(Model):
      code = StringField(primary_key=True, max_length=10)
      label = StringField()

  @model_fields
  class Account(Model):
      id = IntegerField(primary_key=True, nullable=False)
      owner = StringField(nullable=False)
  \<close>
\<close>

definition Tag_decl :: class_decl where
  "Tag_decl =
     \<lparr>cls_name = ''Tag'', cls_table = None,
      cls_attrs =
        [(''code'', FieldAttr \<lparr>arg_kind = StringField 10, arg_name = None, arg_primary_key = True,
                                arg_nullable = True, arg_default = VNone\<rparr>),
         (''label'', FieldAttr \<lparr>arg_kind = StringField 255, arg_name = None,
                                arg_primary_key = False, arg_nullable = True, arg_default = VNone\<rparr>)]\<rparr>"

definition Tag :: model_class where
  "Tag =
     \<lparr>m_name = ''Tag'', m_table = ''tags'',
      m_fields = [(''code'', mk_field (StringField 10) ''code'' True True VNone),
                  (''label'', mk_field (StringField 255) ''label'' False True VNone)],
      m_primary_key = Some (mk_field (StringField 10) ''code'' True True VNone)\<rparr>"

definition Account_decl :: class_decl where
  "Account_decl =
     \<lparr>cls_name = ''Account'', cls_table = None,
      cls_attrs =
        [(''id'', FieldAttr \<lparr>arg_kind = IntegerField, arg_name = None, arg_primary_key = True,
                              arg_nullable = False, arg_default = VNone\<rparr>),
         (''owner'', FieldAttr \<lparr>arg_kind = StringField 255, arg_name = None,
                              arg_primary_key = False, arg_nullable = False, arg_default = VNone\<rparr>)]\<rparr>"

definition Account :: model_class where
  "Account =
     \<lparr>m_name = ''Account'', m_table = ''accounts'',
      m_fields = [(''id'', mk_field IntegerField ''id'' True False VNone),
                  (''owner'', mk_field (StringField 255) ''owner'' False False VNone)],
      m_primary_key = Some (mk_field IntegerField ''id'' True False VNone)\<rparr>"






section \<open>Properties\<close>

lemma TestModel_registered: "model_fields TestModel_decl = Inr TestModel"
  by (simp add: model_fields_def TestModel_decl_def TestModel_def set_name_def mk_field_def Let_def)

lemma collect_fields_pk:
  "snd (collect_fields as flds pk) =
     (case filter primary_key (declared as) of [] \<Rightarrow> pk | f # fs \<Rightarrow> Some (last (f # fs)))"
  by (induction as flds pk rule: collect_fields.induct)
     (auto simp: Let_def split: list.splits)

lemma set_update_subset: "set (AList.update k v al) \<subseteq> insert (k, v) (set al)"
  by (induction al) auto

lemma collect_fields_distinct:
  "distinct (map fst flds) \<Longrightarrow> distinct (map fst (fst (collect_fields as flds pk)))"
  by (induction as flds pk rule: collect_fields.induct)
     (auto simp: Let_def AList.distinct_update)

lemma collect_fields_attr_name:
  "\<forall>(n, f) \<in> set flds. attr_name f = n \<Longrightarrow>
   \<forall>(n, f) \<in> set (fst (collect_fields as flds pk)). attr_name f = n"
proof (induction as flds pk rule: collect_fields.induct)
  case (3 attr_n a rest flds pk)
  have "\<forall>(n, f) \<in> set (AList.update attr_n (set_name attr_n a) flds). attr_name f = n"
    using 3(2) set_update_subset[of attr_n "set_name attr_n a" flds]
    by (auto simp: set_name_def)
  with 3(1) show ?case by (simp add: Let_def)
qed auto

lemma registered_wf: "model_fields cls = Inr m \<Longrightarrow> wf_fields (m_fields m)"
  using collect_fields_distinct[of "[]" "cls_attrs cls" None]
        collect_fields_attr_name[of "[]" "cls_attrs cls" None]
  by (auto simp: model_fields_def wf_fields_def list_all_iff split: prod.splits)

lemma field_set_ValueError: "field_set f inst v = Inl e \<Longrightarrow> exc_class_of e = ValueError"
  by (auto simp: field_set_def Field_set_def BooleanField_set_def
           split: if_splits kind.splits sum.splits)

lemma field_set_isl: "isl (field_set f inst v) = isl (field_set f [] v)"
  by (auto simp: field_set_def Field_set_def BooleanField_set_def
           split: if_splits kind.splits sum.splits)

lemma field_set_Inr:
  "field_set f inst v = Inr inst' \<Longrightarrow>
   inst' = AList.update (attr_name f) (if kind f = BooleanField \<and> is_int v then py_bool v else v) inst"
  by (auto simp: field_set_def Field_set_def BooleanField_set_def
           split: if_splits kind.splits sum.splits)

lemma init_fields_ValueError:
  "init_fields fs kw inst = Inl e \<Longrightarrow> exc_class_of e = ValueError"
  by (induction fs kw inst rule: init_fields.induct)
     (auto split: prod.splits sum.splits dest: field_set_ValueError)

lemma dict_pop_fst: "fst (dict_pop d k x) = dict_get d k x"
  by (simp add: dict_pop_def dict_get_def split: option.splits)

lemma dict_pop_snd: "snd (dict_pop d k x) = filter (\<lambda>kv. fst kv \<noteq> k) d"
proof (cases "map_of d k")
  case None
  then have "k \<notin> fst ` set d" by (simp add: map_of_eq_None_iff)
  then have "filter (\<lambda>kv. fst kv \<noteq> k) d = d" by (auto simp: filter_id_conv)
  with None show ?thesis by (simp add: dict_pop_def)
next
  case (Some v)
  have "AList.delete k d = filter (\<lambda>kv. fst kv \<noteq> k) d"
    by (induction d) auto
  with Some show ?thesis by (simp add: dict_pop_def)
qed

lemma dict_get_filter_other:
  "n \<noteq> k \<Longrightarrow> dict_get (filter (\<lambda>kv. fst kv \<noteq> k) d) n x = dict_get d n x"
  by (induction d) (auto simp: dict_get_def)

lemma init_fields_rest:
  "init_fields fs kw inst = Inr (inst', kw') \<Longrightarrow>
   kw' = filter (\<lambda>kv. fst kv \<notin> fst ` set fs) kw"
proof (induction fs kw inst rule: init_fields.induct)
  case (2 field_name f rest kwargs inst)
  obtain v kw1 where p: "dict_pop kwargs field_name (default f) = (v, kw1)" by force
  then have kw1: "kw1 = filter (\<lambda>kv. fst kv \<noteq> field_name) kwargs"
    using dict_pop_snd[of kwargs field_name "default f"] by simp
  from 2(2) p obtain inst1 where s: "field_set f inst v = Inr inst1"
    and r: "init_fields rest kw1 inst1 = Inr (inst', kw')"
    by (auto split: sum.splits)
  from 2(1)[OF p[symmetric] s r] kw1 show ?case
    by (auto intro: filter_cong)
qed simp

lemma init_fields_fails:
  "(n, f) \<in> set fs \<Longrightarrow> distinct (map fst fs) \<Longrightarrow>
   isl (field_set f [] (dict_get kw n (default f))) \<Longrightarrow> isl (init_fields fs kw inst)"
proof (induction fs kw inst rule: init_fields.induct)
  case (2 field_name g rest kwargs inst)
  obtain v kw1 where p: "dict_pop kwargs field_name (default g) = (v, kw1)" by force
  then have v: "v = dict_get kwargs field_name (default g)"
    and kw1: "kw1 = filter (\<lambda>kv. fst kv \<noteq> field_name) kwargs"
    using dict_pop_fst[of kwargs field_name "default g"]
          dict_pop_snd[of kwargs field_name "default g"] by simp_all
  show ?case
  proof (cases "field_set g inst v")
    case (Inl e)
    with p show ?thesis by simp
  next
    case (Inr inst1)
    have ne: "(n, f) \<noteq> (field_name, g)"
    proof
      assume "(n, f) = (field_name, g)"
      with 2(4) v have "isl (field_set g [] v)" by simp
      with Inr field_set_isl[of g inst v] show False by simp
    qed
    with 2(2) have mem: "(n, f) \<in> set rest" by auto
    with 2(3) have "n \<noteq> field_name" by force
    then have "dict_get kw1 n (default f) = dict_get kwargs n (default f)"
      using kw1 dict_get_filter_other by simp
    with 2(1)[OF p[symmetric] Inr mem] 2(3) 2(4) have "isl (init_fields rest kw1 inst1)"
      by simp
    with p Inr show ?thesis by simp
  qed
qed simp

lemma init_fields_keeps:
  "init_fields fs kw inst = Inr (inst', kw') \<Longrightarrow> n \<notin> fst ` set fs \<Longrightarrow>
   list_all (\<lambda>(k, g). attr_name g = k) fs \<Longrightarrow> map_of inst' n = map_of inst n"
proof (induction fs kw inst rule: init_fields.induct)
  case (2 field_name g rest kwargs inst)
  obtain v kw1 where p: "dict_pop kwargs field_name (default g) = (v, kw1)" by force
  from 2(2) p obtain inst1 where s: "field_set g inst v = Inr inst1"
    and r: "init_fields rest kw1 inst1 = Inr (inst', kw')"
    by (auto split: sum.splits)
  from 2(3,4) have "attr_name g \<noteq> n" by auto
  with field_set_Inr[OF s] have "map_of inst1 n = map_of inst n"
    by (simp add: AList.update_conv')
  with 2(1)[OF p[symmetric] s r] 2(3,4) show ?case by simp
qed simp

lemma init_fields_stores:
  "init_fields fs kw inst = Inr (inst', kw') \<Longrightarrow> (n, f) \<in> set fs \<Longrightarrow> wf_fields fs \<Longrightarrow>
   map_of inst' n =
     Some (let v = dict_get kw n (default f)
           in if kind f = BooleanField \<and> is_int v then py_bool v else v)"
proof (induction fs kw inst rule: init_fields.induct)
  case (2 field_name g rest kwargs inst)
  obtain v kw1 where p: "dict_pop kwargs field_name (default g) = (v, kw1)" by force
  then have v: "v = dict_get kwargs field_name (default g)"
    and kw1: "kw1 = filter (\<lambda>kv. fst kv \<noteq> field_name) kwargs"
    using dict_pop_fst[of kwargs field_name "default g"]
          dict_pop_snd[of kwargs field_name "default g"] by simp_all
  from 2(2) p obtain inst1 where s: "field_set g inst v = Inr inst1"
    and r: "init_fields rest kw1 inst1 = Inr (inst', kw')"
    by (auto split: sum.splits)
  from 2(4) have wf: "wf_fields rest" and an: "attr_name g = field_name"
    and fresh: "field_name \<notin> fst ` set rest"
    and la: "list_all (\<lambda>(k, g). attr_name g = k) rest"
    by (auto simp: wf_fields_def)
  show ?case
  proof (cases "(n, f) = (field_name, g)")
    case True
    have "map_of inst' field_name = map_of inst1 field_name"
      using init_fields_keeps[OF r fresh la] .
    also have "\<dots> = Some (if kind g = BooleanField \<and> is_int v then py_bool v else v)"
      using field_set_Inr[OF s] an by (simp add: AList.update_conv')
    finally show ?thesis using True v by (simp add: Let_def)
  next
    case False
    with 2(3) have mem: "(n, f) \<in> set rest" by auto
    with fresh have "n \<noteq> field_name" by force
    then have "dict_get kw1 n (default f) = dict_get kwargs n (default f)"
      using kw1 dict_get_filter_other by simp
    with 2(1)[OF p[symmetric] s r mem wf] show ?thesis by simp
  qed
qed simp

lemmas eval_defs =
  model_fields_def set_name_def mk_field_def Let_def Model_init_def dict_pop_def dict_get_def
  field_set_def Field_set_def BooleanField_set_def py_bool_def in_0_1_def field_get_def
  lower_def lower_char_def

lemma User_registered: "model_fields User_decl = Inr User"
  by (simp add: User_decl_def User_def eval_defs)

text \<open>
  Claim C1, counterexample. The claim has registration of a class with two fields marked
  \<open>primary_key\<close> fail at declaration time. \<open>model_fields\<close> has no such test: the
  class \<open>TwoKeys\<close>, with the integer fields \<open>a\<close> and \<open>b\<close> both marked, is
  registered, and its primary key is \<open>b\<close>.
\<close>

theorem model_fields_two_primary_keys_registers:
  "model_fields TwoKeys_decl =
     Inr \<lparr>m_name = ''TwoKeys'', m_table = ''twokeyss'',
          m_fields = [(''a'', mk_field IntegerField ''a'' True True VNone),
                      (''b'', mk_field IntegerField ''b'' True True VNone)],
          m_primary_key = Some (mk_field IntegerField ''b'' True True VNone)\<rparr>"
  by code_simp

text \<open>
  Claim C1, as amended. Registration of any class succeeds, also with two or more fields
  marked \<open>primary_key\<close>; the primary key of the registered class is the last field so
  marked, in declaration order, and there is none when no field is marked.
\<close>

theorem model_fields_never_fails:
  "\<exists>m. model_fields cls = Inr m \<and>
       m_primary_key m =
         (case filter primary_key (declared (cls_attrs cls)) of
            [] \<Rightarrow> None
          | f # fs \<Rightarrow> Some (last (f # fs)))"
  using collect_fields_pk[of "cls_attrs cls" "[]" None]
  by (auto simp: model_fields_def split: prod.splits)

text \<open>
  Claim C2, at the failing input. \<open>User\<close> of main.py declares \<open>created_at\<close> and
  \<open>updated_at\<close> as \<open>DateTimeField(auto_now_add=True)\<close>. Constructing the user of
  main.py, with no value for either, leaves both \<open>None\<close>: no timestamp is set.
\<close>

theorem auto_now_add_not_applied:
  "Model_init User johndoe_kwargs =
     Inr [(''id'', VNone),
          (''username'', VStr ''johndoe''),
          (''email'', VStr ''john@example.com''),
          (''password'', VStr ''secure123''),
          (''is_active'', VBool True),
          (''created_at'', VNone),
          (''updated_at'', VNone),
          (''balance'', VFloat 201 (- 1))]"
  by (simp add: User_def johndoe_kwargs_def eval_defs)

text \<open>
  Claim C6. Assigning \<open>None\<close> to a field that is not nullable, whatever its kind and
  whatever the instance holds, raises the not-nullable error. Constructing an instance of
  a registered class fails with a \<open>ValueError\<close> when a field that is not nullable gets
  \<open>None\<close>: because the keyword is omitted and the default is \<open>None\<close>, or because
  \<open>None\<close> is passed.
\<close>

theorem not_nullable_rejects_None:
  assumes "\<not> nullable f"
  shows "field_set f inst VNone = Inl (CannotBeNone (attr_name f)) \<and>
         (model_fields cls = Inr m \<and> (n, f) \<in> set (m_fields m) \<and>
          dict_get kwargs n (default f) = VNone
          \<longrightarrow> (\<exists>e. Model_init m kwargs = Inl e \<and> exc_class_of e = ValueError))"
proof (intro conjI impI)
  show s: "field_set f inst VNone = Inl (CannotBeNone (attr_name f))" for inst
    using assms by (simp add: field_set_def Field_set_def BooleanField_set_def)
  assume a: "model_fields cls = Inr m \<and> (n, f) \<in> set (m_fields m) \<and>
             dict_get kwargs n (default f) = VNone"
  then have d: "distinct (map fst (m_fields m))"
    using registered_wf[of cls m] by (simp add: wf_fields_def)
  from a s[of "[]"] have "isl (field_set f [] (dict_get kwargs n (default f)))" by simp
  with a d have "isl (init_fields (m_fields m) kwargs [])"
    using init_fields_fails[of n f "m_fields m" kwargs "[]"] by simp
  then obtain e where e: "init_fields (m_fields m) kwargs [] = Inl e"
    by (auto simp: isl_def)
  with init_fields_ValueError[OF e] show "\<exists>e. Model_init m kwargs = Inl e \<and> exc_class_of e = ValueError"
    by (simp add: Model_init_def)
qed

text \<open>
  Claim C6, witness: \<open>name\<close> of \<open>TestModel\<close> is not nullable and has no default, and
  \<open>TestModel(price=2)\<close> omits it.
\<close>

theorem not_nullable_rejects_None_witness:
  "\<not> nullable (mk_field (StringField 100) ''name'' False False VNone) \<and>
   field_set (mk_field (StringField 100) ''name'' False False VNone) [(''id'', VInt 3)] VNone
     = Inl (CannotBeNone ''name'') \<and>
   model_fields TestModel_decl = Inr TestModel \<and>
   (''name'', mk_field (StringField 100) ''name'' False False VNone) \<in> set (m_fields TestModel) \<and>
   dict_get [(''price'', VInt 2)] ''name'' VNone = VNone \<and>
   (\<exists>e. Model_init TestModel [(''price'', VInt 2)] = Inl e \<and> exc_class_of e = ValueError)"
proof -
  let ?f = "mk_field (StringField 100) ''name'' False False VNone"
  have h: "\<not> nullable ?f" by (simp add: mk_field_def)
  have m: "(''name'', ?f) \<in> set (m_fields TestModel)" by (simp add: TestModel_def)
  have g: "dict_get [(''price'', VInt 2)] ''name'' (default ?f) = VNone"
    by (simp add: dict_get_def mk_field_def)
  from not_nullable_rejects_None[OF h, of "[(''id'', VInt 3)]" TestModel_decl TestModel "''name''"
        "[(''price'', VInt 2)]"] TestModel_registered m g h
  show ?thesis by (simp add: mk_field_def dict_get_def)
qed

lemma Model_init_Inr:
  "Model_init m kwargs = Inr obj \<Longrightarrow> init_fields (m_fields m) kwargs [] = Inr (obj, [])"
  by (auto simp: Model_init_def split: sum.splits if_splits)

lemma Model_init_stores:
  assumes "model_fields cls = Inr m" "(n, f) \<in> set (m_fields m)" "Model_init m kwargs = Inr obj"
  shows "map_of obj n =
           Some (let v = dict_get kwargs n (default f)
                 in if kind f = BooleanField \<and> is_int v then py_bool v else v)"
  using init_fields_stores[OF Model_init_Inr[OF assms(3)] assms(2) registered_wf[OF assms(1)]] .

lemma Model_init_fails:
  assumes "model_fields cls = Inr m" "(n, f) \<in> set (m_fields m)"
    "isl (field_set f [] (dict_get kwargs n (default f)))"
  shows "\<exists>e. Model_init m kwargs = Inl e \<and> exc_class_of e = ValueError"
proof -
  have "distinct (map fst (m_fields m))"
    using registered_wf[OF assms(1)] by (simp add: wf_fields_def)
  with assms have "isl (init_fields (m_fields m) kwargs [])"
    using init_fields_fails[of n f "m_fields m" kwargs "[]"] by simp
  then obtain e where e: "init_fields (m_fields m) kwargs [] = Inl e"
    by (auto simp: isl_def)
  with init_fields_ValueError[OF e] show ?thesis by (simp add: Model_init_def)
qed

text \<open>
  Claim C9. Assigning the integer 1 or 0 to a boolean field stores \<open>True\<close> or
  \<open>False\<close>, any other integer raises the validation error, and a boolean is stored
  unchanged. The same holds at construction of an instance of a registered class: the
  instance constructed holds the boolean, and an integer other than 0 and 1 makes the
  construction fail with a \<open>ValueError\<close>.
\<close>

theorem boolean_field_coerces:
  assumes "kind f = BooleanField"
  shows "field_set f inst (VInt 1) = Inr (AList.update (attr_name f) (VBool True) inst) \<and>
         field_set f inst (VInt 0) = Inr (AList.update (attr_name f) (VBool False) inst) \<and>
         (j \<noteq> 0 \<and> j \<noteq> 1 \<longrightarrow> field_set f inst (VInt j) = Inl (MustBeZeroOne (attr_name f))) \<and>
         field_set f inst (VBool b) = Inr (AList.update (attr_name f) (VBool b) inst) \<and>
         (model_fields cls = Inr m \<and> (n, f) \<in> set (m_fields m) \<longrightarrow>
            (map_of kwargs n = Some (VInt 1) \<and> Model_init m kwargs = Inr obj
               \<longrightarrow> map_of obj n = Some (VBool True)) \<and>
            (map_of kwargs n = Some (VInt 0) \<and> Model_init m kwargs = Inr obj
               \<longrightarrow> map_of obj n = Some (VBool False)) \<and>
            (map_of kwargs n = Some (VInt j) \<and> j \<noteq> 0 \<and> j \<noteq> 1
               \<longrightarrow> (\<exists>e. Model_init m kwargs = Inl e \<and> exc_class_of e = ValueError)) \<and>
            (map_of kwargs n = Some (VBool b) \<and> Model_init m kwargs = Inr obj
               \<longrightarrow> map_of obj n = Some (VBool b)))"
proof -
  have s1: "field_set f i (VInt 1) = Inr (AList.update (attr_name f) (VBool True) i)" for i
    using assms by (simp add: field_set_def BooleanField_set_def in_0_1_def py_bool_def)
  have s0: "field_set f i (VInt 0) = Inr (AList.update (attr_name f) (VBool False) i)" for i
    using assms by (simp add: field_set_def BooleanField_set_def in_0_1_def py_bool_def)
  have sj: "field_set f i (VInt j) = Inl (MustBeZeroOne (attr_name f))" if "j \<noteq> 0 \<and> j \<noteq> 1" for i
    using assms that by (simp add: field_set_def BooleanField_set_def in_0_1_def)
  have sb: "field_set f i (VBool b) = Inr (AList.update (attr_name f) (VBool b) i)" for i
    using assms by (simp add: field_set_def BooleanField_set_def in_0_1_def py_bool_def)
  have c: "map_of obj n = Some (py_bool v)"
    if "model_fields cls = Inr m" "(n, f) \<in> set (m_fields m)" "map_of kwargs n = Some v"
       "is_int v" "Model_init m kwargs = Inr obj" for v
    using Model_init_stores[OF that(1,2,5)] that(3,4) assms
    by (simp add: dict_get_def)
  have cj: "\<exists>e. Model_init m kwargs = Inl e \<and> exc_class_of e = ValueError"
    if "model_fields cls = Inr m" "(n, f) \<in> set (m_fields m)" "map_of kwargs n = Some (VInt j)"
       "j \<noteq> 0 \<and> j \<noteq> 1"
    using Model_init_fails[OF that(1,2), of kwargs] sj[OF that(4), of "[]"] that(3)
    by (simp add: dict_get_def)
  show ?thesis
    using s1[of inst] s0[of inst] sj[of inst] sb[of inst]
          c[of "VInt 1"] c[of "VInt 0"] c[of "VBool b"] cj
    by (simp add: py_bool_def)
qed

text \<open>
  Claim C9, witness: the field \<open>active\<close> of \<open>TestModel\<close>, assigned and constructed
  with 1, 0 and 2.
\<close>

theorem boolean_field_coerces_witness:
  "kind (mk_field BooleanField ''active'' False True (VBool True)) = BooleanField \<and>
   model_fields TestModel_decl = Inr TestModel \<and>
   (''active'', mk_field BooleanField ''active'' False True (VBool True)) \<in> set (m_fields TestModel) \<and>
   field_set (mk_field BooleanField ''active'' False True (VBool True)) [] (VInt 1)
     = Inr [(''active'', VBool True)] \<and>
   field_set (mk_field BooleanField ''active'' False True (VBool True)) [] (VInt 0)
     = Inr [(''active'', VBool False)] \<and>
   field_set (mk_field BooleanField ''active'' False True (VBool True)) [] (VInt 2)
     = Inl (MustBeZeroOne ''active'') \<and>
   Model_init TestModel [(''name'', VStr ''Item 1''), (''active'', VInt 1)]
     = Inr [(''id'', VNone), (''name'', VStr ''Item 1''), (''description'', VNone),
            (''active'', VBool True), (''price'', VFloat 0 0)] \<and>
   Model_init TestModel [(''name'', VStr ''Item 2''), (''active'', VInt 0)]
     = Inr [(''id'', VNone), (''name'', VStr ''Item 2''), (''description'', VNone),
            (''active'', VBool False), (''price'', VFloat 0 0)] \<and>
   (\<exists>e. Model_init TestModel [(''name'', VStr ''Item 3''), (''active'', VInt 2)] = Inl e \<and>
        exc_class_of e = ValueError)"
proof -
  let ?f = "mk_field BooleanField ''active'' False True (VBool True)"
  have h: "kind ?f = BooleanField" by (simp add: mk_field_def)
  have m: "(''active'', ?f) \<in> set (m_fields TestModel)" by (simp add: TestModel_def)
  have i1: "Model_init TestModel [(''name'', VStr ''Item 1''), (''active'', VInt 1)]
     = Inr [(''id'', VNone), (''name'', VStr ''Item 1''), (''description'', VNone),
            (''active'', VBool True), (''price'', VFloat 0 0)]"
    by (simp add: TestModel_def eval_defs)
  have i0: "Model_init TestModel [(''name'', VStr ''Item 2''), (''active'', VInt 0)]
     = Inr [(''id'', VNone), (''name'', VStr ''Item 2''), (''description'', VNone),
            (''active'', VBool False), (''price'', VFloat 0 0)]"
    by (simp add: TestModel_def eval_defs)
  from boolean_field_coerces[OF h, where j = 2 and inst = "[]" and cls = TestModel_decl
         and m = TestModel and n = "''active''"
         and kwargs = "[(''name'', VStr ''Item 3''), (''active'', VInt 2)]"]
       TestModel_registered m h i1 i0
  show ?thesis by (simp add: mk_field_def)
qed

text \<open>
  Claim C10. Constructing an instance with a keyword argument that is not a declared
  field always raises. The declared fields are processed first: if one of their
  assignments raises, that error is the one raised; otherwise the error is the
  \<open>TypeError\<close> that lists the keyword arguments that are not declared fields, in the order
  they were passed.
\<close>

theorem unexpected_keywords_rejected:
  assumes "k \<in> fst ` set kwargs" and "k \<notin> fst ` set (m_fields m)"
  shows "isl (Model_init m kwargs) \<and>
         (case init_fields (m_fields m) kwargs [] of
            Inl e \<Rightarrow> Model_init m kwargs = Inl e \<and> exc_class_of e = ValueError
          | Inr (obj, rest) \<Rightarrow>
              Model_init m kwargs = Inl (UnexpectedKeywords (map fst rest)) \<and>
              map fst rest = filter (\<lambda>a. a \<notin> fst ` set (m_fields m)) (map fst kwargs) \<and>
              k \<in> set (map fst rest))"
proof (cases "init_fields (m_fields m) kwargs []")
  case (Inl e)
  with init_fields_ValueError[OF Inl] show ?thesis by (simp add: Model_init_def)
next
  case (Inr p)
  obtain obj rest where p: "p = (obj, rest)" by force
  with Inr have r: "rest = filter (\<lambda>kv. fst kv \<notin> fst ` set (m_fields m)) kwargs"
    using init_fields_rest[of "m_fields m" kwargs "[]" obj rest] by simp
  then have f: "map fst rest = filter (\<lambda>a. a \<notin> fst ` set (m_fields m)) (map fst kwargs)"
    by (simp add: filter_map comp_def)
  with assms have k: "k \<in> set (map fst rest)" by auto
  then have "rest \<noteq> []" by auto
  with Inr p have "Model_init m kwargs = Inl (UnexpectedKeywords (map fst rest))"
    by (simp add: Model_init_def)
  with Inr p f k show ?thesis by (simp del: set_map)
qed

text \<open>
  Claim C10, witness: \<open>TestModel(name='Item 1', colour=1)\<close>.
\<close>

theorem unexpected_keywords_rejected_witness:
  "''colour'' \<in> fst ` set [(''name'', VStr ''Item 1''), (''colour'', VInt 1)] \<and>
   ''colour'' \<notin> fst ` set (m_fields TestModel) \<and>
   Model_init TestModel [(''name'', VStr ''Item 1''), (''colour'', VInt 1)]
     = Inl (UnexpectedKeywords [''colour''])"
proof -
  have a: "''colour'' \<in> fst ` set [(''name'', VStr ''Item 1''), (''colour'', VInt 1)]" by simp
  have b: "''colour'' \<notin> fst ` set (m_fields TestModel)" by (simp add: TestModel_def)
  have c: "init_fields (m_fields TestModel) [(''name'', VStr ''Item 1''), (''colour'', VInt 1)] []
     = Inr ([(''id'', VNone), (''name'', VStr ''Item 1''), (''description'', VNone),
            (''active'', VBool True), (''price'', VFloat 0 0)], [(''colour'', VInt 1)])"
    by (simp add: TestModel_def eval_defs)
  from unexpected_keywords_rejected[OF a b] a b show ?thesis
    by (simp add: c)
qed

lemmas store_defs =
  new_strs_def new_vals_def new_query_def get_strs_def get_vals_def get_query_def
  set_strs_def set_vals_def set_query_def

lemma Query_clone_explicit:
  assumes "valid_query s self"
  shows "Query_clone self s =
    (length (queries s),
     \<lparr>queries = queries s @
        [\<lparr>model_class = model_class (get_query s self),
          q_filters = Suc (length (str_lists s)),
          q_filter_params = Suc (length (val_lists s)),
          q_order_by = q_order_by (get_query s self),
          q_limit = q_limit (get_query s self),
          q_offset = q_offset (get_query s self)\<rparr>],
      str_lists = str_lists s @ [[], get_strs s (q_filters (get_query s self))],
      val_lists = val_lists s @ [[], get_vals s (q_filter_params (get_query s self))]\<rparr>)"
  using assms
  by (simp add: Query_clone_def Query_init_def valid_query_def store_defs nth_append)

lemma filter_by_loop_closed:
  assumes "q_filters (get_query t query) < length (str_lists t)"
    and "q_filter_params (get_query t query) < length (val_lists t)"
  shows "filter_by_loop cls query kw t =
    ((case dropWhile (\<lambda>kv. is_field cls (fst kv)) kw of
        [] \<Rightarrow> None
      | kv # rest \<Rightarrow> Some (NoFieldNamed (m_name cls) (fst kv))),
     t\<lparr>str_lists := (str_lists t)
          [q_filters (get_query t query) :=
             get_strs t (q_filters (get_query t query)) @
             map (\<lambda>kv. column cls (fst kv) @ '' = ?'')
               (takeWhile (\<lambda>kv. is_field cls (fst kv)) kw)],
       val_lists := (val_lists t)
          [q_filter_params (get_query t query) :=
             get_vals t (q_filter_params (get_query t query)) @
             map snd (takeWhile (\<lambda>kv. is_field cls (fst kv)) kw)]\<rparr>)"
  using assms
proof (induction cls query kw t rule: filter_by_loop.induct)
  case (1 cls query s)
  then show ?case by (simp add: store_defs)
next
  case (2 cls query attr_n v rest s)
  show ?case
  proof (cases "map_of (m_fields cls) attr_n")
    case None
    then show ?thesis by (simp add: is_field_def store_defs)
  next
    case (Some f)
    let ?t = "set_vals (q_filter_params (get_query s query))
               (get_vals s (q_filter_params (get_query s query)) @ [v])
               (set_strs (q_filters (get_query s query))
                  (get_strs s (q_filters (get_query s query)) @ [name f @ '' = ?'']) s)"
    have q: "get_query ?t query = get_query s query" by (simp add: store_defs)
    have l: "q_filters (get_query ?t query) < length (str_lists ?t)"
            "q_filter_params (get_query ?t query) < length (val_lists ?t)"
      using 2(2,3) by (simp_all add: store_defs)
    from 2(1)[OF Some l] Some 2(2,3) show ?thesis
      by (simp add: is_field_def column_def store_defs)
  qed
qed

lemma dropWhile_Nil_iff: "(dropWhile P xs = []) = list_all P xs"
  by (induction xs) auto

lemma takeWhile_all: "list_all P xs \<Longrightarrow> takeWhile P xs = xs"
  by (induction xs) auto

lemma dropWhile_hd_not: "dropWhile P xs = y # ys \<Longrightarrow> \<not> P y"
  using hd_dropWhile[of P xs] by auto

lemma Query_filter_frame:
  assumes "valid_query s self" and "snapshot s self = (fs, ps, ob, lim, off)"
    and "cls = model_class (get_query s self)"
  shows "case Query_filter self conditions s of
           (q', s') \<Rightarrow>
             q' \<noteq> self \<and> valid_query s' q' \<and> preserved s s' \<and>
             model_class (get_query s' q') = cls \<and>
             snapshot s' self = (fs, ps, ob, lim, off) \<and>
             snapshot s' q' = (fs @ conditions, ps, ob, lim, off)"
  using assms
  by (auto simp: Query_filter_def Query_clone_explicit valid_query_def snapshot_def
      preserved_def store_defs nth_append)

lemma Query_limit_frame:
  assumes "valid_query s self" and "snapshot s self = (fs, ps, ob, lim, off)"
    and "cls = model_class (get_query s self)"
  shows "case Query_limit self n s of
           (q', s') \<Rightarrow>
             q' \<noteq> self \<and> valid_query s' q' \<and> preserved s s' \<and>
             model_class (get_query s' q') = cls \<and>
             snapshot s' self = (fs, ps, ob, lim, off) \<and>
             snapshot s' q' = (fs, ps, ob, Some n, off)"
  using assms
  by (auto simp: Query_limit_def Query_clone_explicit valid_query_def snapshot_def
      preserved_def store_defs nth_append)

lemma Query_offset_frame:
  assumes "valid_query s self" and "snapshot s self = (fs, ps, ob, lim, off)"
    and "cls = model_class (get_query s self)"
  shows "case Query_offset self n s of
           (q', s') \<Rightarrow>
             q' \<noteq> self \<and> valid_query s' q' \<and> preserved s s' \<and>
             model_class (get_query s' q') = cls \<and>
             snapshot s' self = (fs, ps, ob, lim, off) \<and>
             snapshot s' q' = (fs, ps, ob, lim, Some n)"
  using assms
  by (auto simp: Query_offset_def Query_clone_explicit valid_query_def snapshot_def
      preserved_def store_defs nth_append)

lemma Query_order_by_frame:
  assumes "valid_query s self" and "snapshot s self = (fs, ps, ob, lim, off)"
    and "cls = model_class (get_query s self)"
  shows "case Query_order_by self field_name ascending s of
           (r, s') \<Rightarrow>
             preserved s s' \<and> snapshot s' self = (fs, ps, ob, lim, off) \<and>
             (case r of
                Inr q' \<Rightarrow>
                  q' \<noteq> self \<and> valid_query s' q' \<and> model_class (get_query s' q') = cls \<and>
                  is_field cls field_name \<and>
                  snapshot s' q' =
                    (fs, ps,
                     Some (column cls field_name @ '' '' @ (if ascending then ''ASC'' else ''DESC'')),
                     lim, off)
              | Inl e \<Rightarrow> \<not> is_field cls field_name \<and> e = NoFieldNamed (m_name cls) field_name)"
  using assms
  by (auto simp: Query_order_by_def Query_clone_explicit valid_query_def snapshot_def
      preserved_def store_defs nth_append is_field_def column_def split: option.splits)

lemma Query_filter_by_frame:
  assumes "valid_query s self" and "snapshot s self = (fs, ps, ob, lim, off)"
    and "cls = model_class (get_query s self)"
  shows "case Query_filter_by self kwargs s of
           (r, s') \<Rightarrow>
             preserved s s' \<and> snapshot s' self = (fs, ps, ob, lim, off) \<and>
             (case r of
                Inr q' \<Rightarrow>
                  q' \<noteq> self \<and> valid_query s' q' \<and> model_class (get_query s' q') = cls \<and>
                  list_all (\<lambda>kv. is_field cls (fst kv)) kwargs \<and>
                  snapshot s' q' =
                    (fs @ map (\<lambda>kv. column cls (fst kv) @ '' = ?'') kwargs,
                     ps @ map snd kwargs, ob, lim, off)
              | Inl e \<Rightarrow>
                  \<not> list_all (\<lambda>kv. is_field cls (fst kv)) kwargs \<and>
                  (\<exists>k. e = NoFieldNamed (m_name cls) k \<and> k \<in> fst ` set kwargs \<and>
                       \<not> is_field cls k))"
proof -
  obtain q1 s1 where c: "Query_clone self s = (q1, s1)" by force
  with Query_clone_explicit[OF assms(1)] have q1: "q1 = length (queries s)"
    and s1: "s1 = \<lparr>queries = queries s @
        [\<lparr>model_class = model_class (get_query s self),
          q_filters = Suc (length (str_lists s)),
          q_filter_params = Suc (length (val_lists s)),
          q_order_by = q_order_by (get_query s self),
          q_limit = q_limit (get_query s self),
          q_offset = q_offset (get_query s self)\<rparr>],
      str_lists = str_lists s @ [[], get_strs s (q_filters (get_query s self))],
      val_lists = val_lists s @ [[], get_vals s (q_filter_params (get_query s self))]\<rparr>"
    by simp_all
  have l: "q_filters (get_query s1 q1) < length (str_lists s1)"
          "q_filter_params (get_query s1 q1) < length (val_lists s1)"
    by (simp_all add: q1 s1 store_defs)
  have m: "model_class (get_query s1 self) = cls"
    using assms by (simp add: s1 store_defs valid_query_def nth_append)
  let ?P = "\<lambda>kv. is_field cls (fst kv)"
  let ?s2 = "\<lambda>known. s1\<lparr>str_lists := (str_lists s1)
          [q_filters (get_query s1 q1) :=
             get_strs s1 (q_filters (get_query s1 q1)) @
             map (\<lambda>kv. column cls (fst kv) @ '' = ?'') known],
       val_lists := (val_lists s1)
          [q_filter_params (get_query s1 q1) :=
             get_vals s1 (q_filter_params (get_query s1 q1)) @ map snd known]\<rparr>"
  have frame: "preserved s (?s2 known) \<and> snapshot (?s2 known) self = (fs, ps, ob, lim, off) \<and>
     q1 \<noteq> self \<and> valid_query (?s2 known) q1 \<and> model_class (get_query (?s2 known) q1) = cls \<and>
     snapshot (?s2 known) q1 =
       (fs @ map (\<lambda>kv. column cls (fst kv) @ '' = ?'') known, ps @ map snd known, ob, lim, off)"
    for known
    using assms
    by (auto simp: q1 s1 valid_query_def snapshot_def preserved_def store_defs nth_append)
  show ?thesis
  proof (cases "dropWhile ?P kwargs")
    case Nil
    then have a: "list_all ?P kwargs" by (simp add: list_all_iff)
    then have t: "takeWhile ?P kwargs = kwargs" by (rule takeWhile_all)
    have e: "Query_filter_by self kwargs s = (Inr q1, ?s2 kwargs)"
      by (simp add: Query_filter_by_def c m filter_by_loop_closed[OF l] Nil t
               del: dropWhile_eq_Nil_conv)
    show ?thesis using frame[of kwargs] a by (simp add: e)
  next
    case (Cons kv rest)
    then have n: "\<not> list_all ?P kwargs" using dropWhile_Nil_iff[of ?P kwargs] by simp
    have k: "\<not> is_field cls (fst kv)" using dropWhile_hd_not[OF Cons] .
    have "kv \<in> set (dropWhile ?P kwargs)" using Cons by simp
    then have "kv \<in> set kwargs" using set_dropWhileD by fast
    then have i: "fst kv \<in> fst ` set kwargs" by simp
    have e: "Query_filter_by self kwargs s =
               (Inl (NoFieldNamed (m_name cls) (fst kv)), ?s2 (takeWhile ?P kwargs))"
      by (simp add: Query_filter_by_def c m filter_by_loop_closed[OF l] Cons)
    show ?thesis using frame[of "takeWhile ?P kwargs"] n k i by (auto simp: e)
  qed
qed

text \<open>
  Claim C4. A call of \<open>filter\<close>, \<open>filter_by\<close>, \<open>order_by\<close>, \<open>limit\<close> or
  \<open>offset\<close> on a query returns a new \<open>Query\<close> object, other than the one it was
  called on, that holds the state of the original with the conditions appended
  (\<open>filter\<close>), one equality condition and one parameter appended per keyword
  (\<open>filter_by\<close>), or the order, limit or offset replaced. After the call the original
  holds the filters, parameters, order, limit and offset it held before, and so does
  every other object of the store. \<open>filter_by\<close> and \<open>order_by\<close> return a query exactly
  when the names they are given are fields of the class, and raise otherwise; the original
  is unchanged then as well.
\<close>

theorem builder_calls_leave_query_unchanged:
  assumes "valid_query s self" and "snapshot s self = (fs, ps, ob, lim, off)"
    and "cls = model_class (get_query s self)"
  shows
    "(case Query_filter self conditions s of
        (q', s') \<Rightarrow>
          q' \<noteq> self \<and> valid_query s' q' \<and> preserved s s' \<and>
          model_class (get_query s' q') = cls \<and>
          snapshot s' self = (fs, ps, ob, lim, off) \<and>
          snapshot s' q' = (fs @ conditions, ps, ob, lim, off)) \<and>
     (case Query_filter_by self kwargs s of
        (r, s') \<Rightarrow>
          preserved s s' \<and> snapshot s' self = (fs, ps, ob, lim, off) \<and>
          (case r of
             Inr q' \<Rightarrow>
               q' \<noteq> self \<and> valid_query s' q' \<and> model_class (get_query s' q') = cls \<and>
               list_all (\<lambda>kv. is_field cls (fst kv)) kwargs \<and>
               snapshot s' q' =
                 (fs @ map (\<lambda>kv. column cls (fst kv) @ '' = ?'') kwargs,
                  ps @ map snd kwargs, ob, lim, off)
           | Inl e \<Rightarrow>
               \<not> list_all (\<lambda>kv. is_field cls (fst kv)) kwargs \<and>
               (\<exists>k. e = NoFieldNamed (m_name cls) k \<and> k \<in> fst ` set kwargs \<and>
                    \<not> is_field cls k))) \<and>
     (case Query_order_by self field_name ascending s of
        (r, s') \<Rightarrow>
          preserved s s' \<and> snapshot s' self = (fs, ps, ob, lim, off) \<and>
          (case r of
             Inr q' \<Rightarrow>
               q' \<noteq> self \<and> valid_query s' q' \<and> model_class (get_query s' q') = cls \<and>
               is_field cls field_name \<and>
               snapshot s' q' =
                 (fs, ps,
                  Some (column cls field_name @ '' '' @ (if ascending then ''ASC'' else ''DESC'')),
                  lim, off)
           | Inl e \<Rightarrow> \<not> is_field cls field_name \<and> e = NoFieldNamed (m_name cls) field_name)) \<and>
     (case Query_limit self n s of
        (q', s') \<Rightarrow>
          q' \<noteq> self \<and> valid_query s' q' \<and> preserved s s' \<and>
          model_class (get_query s' q') = cls \<and>
          snapshot s' self = (fs, ps, ob, lim, off) \<and>
          snapshot s' q' = (fs, ps, ob, Some n, off)) \<and>
     (case Query_offset self k s of
        (q', s') \<Rightarrow>
          q' \<noteq> self \<and> valid_query s' q' \<and> preserved s s' \<and>
          model_class (get_query s' q') = cls \<and>
          snapshot s' self = (fs, ps, ob, lim, off) \<and>
          snapshot s' q' = (fs, ps, ob, lim, Some k))"
  by (intro conjI Query_filter_frame[OF assms] Query_filter_by_frame[OF assms]
        Query_order_by_frame[OF assms] Query_limit_frame[OF assms] Query_offset_frame[OF assms])

lemmas query_eval_defs =
  Query_init_def Query_clone_def Query_filter_def Query_filter_by_def Query_order_by_def
  Query_limit_def Query_offset_def store_defs empty_store_def snapshot_def valid_query_def
  preserved_def is_field_def column_def

lemma base_store_eq:
  "base_store =
     \<lparr>queries = [\<lparr>model_class = TestModel, q_filters = 0, q_filter_params = 0,
                  q_order_by = None, q_limit = None, q_offset = None\<rparr>],
      str_lists = [[]], val_lists = [[]]\<rparr>"
  by (simp add: base_store_def query_eval_defs)

text \<open>
  Claim C4, witness: \<open>filter_by(active=True)\<close> and \<open>limit(2)\<close> on
  \<open>TestModel.select(db)\<close>.
\<close>

theorem builder_calls_leave_query_unchanged_witness:
  "valid_query base_store 0 \<and>
   snapshot base_store 0 = ([], [], None, None, None) \<and>
   TestModel = model_class (get_query base_store 0) \<and>
   (case Query_filter_by 0 [(''active'', VBool True)] base_store of
      (r, s') \<Rightarrow> r = Inr 1 \<and> snapshot s' 0 = ([], [], None, None, None) \<and>
         snapshot s' 1 = ([''active = ?''], [VBool True], None, None, None)) \<and>
   (case Query_limit 0 2 base_store of
      (q', s') \<Rightarrow> q' = 1 \<and> snapshot s' 0 = ([], [], None, None, None) \<and>
         snapshot s' 1 = ([], [], None, Some 2, None))"
proof -
  have v: "valid_query base_store 0" by (simp add: base_store_eq query_eval_defs)
  have n: "snapshot base_store 0 = ([], [], None, None, None)"
    by (simp add: base_store_eq query_eval_defs)
  have c: "TestModel = model_class (get_query base_store 0)"
    by (simp add: base_store_eq query_eval_defs)
  let ?q0 = "\<lparr>model_class = TestModel, q_filters = 0, q_filter_params = 0,
                  q_order_by = None, q_limit = None, q_offset = None\<rparr>"
  let ?sf = "\<lparr>queries = [?q0, \<lparr>model_class = TestModel, q_filters = 2, q_filter_params = 2,
                  q_order_by = None, q_limit = None, q_offset = None\<rparr>],
      str_lists = [[], [], [''active = ?'']], val_lists = [[], [], [VBool True]]\<rparr>"
  let ?sl = "\<lparr>queries = [?q0, \<lparr>model_class = TestModel, q_filters = 2, q_filter_params = 2,
                  q_order_by = None, q_limit = Some 2, q_offset = None\<rparr>],
      str_lists = [[], [], []], val_lists = [[], [], []]\<rparr>"
  have f: "Query_filter_by 0 [(''active'', VBool True)] base_store = (Inr 1, ?sf)"
    by (simp add: base_store_eq query_eval_defs TestModel_def mk_field_def)
  have l: "Query_limit 0 2 base_store = (1, ?sl)"
    by (simp add: base_store_eq query_eval_defs)
  have sf: "snapshot ?sf 0 = ([], [], None, None, None)"
    "snapshot ?sf (Suc 0) = ([''active = ?''], [VBool True], None, None, None)"
    by (simp_all add: query_eval_defs)
  have sl: "snapshot ?sl 0 = ([], [], None, None, None)"
    "snapshot ?sl (Suc 0) = ([], [], None, Some 2, None)"
    by (simp_all add: query_eval_defs)
  from builder_calls_leave_query_unchanged[OF v n c, where kwargs = "[(''active'', VBool True)]"
        and n = 2] v n c
  show ?thesis
    by (simp add: f l sf sl)
qed

lemma str_join_snoc: "xs \<noteq> [] \<Longrightarrow> str_join sep (xs @ [y]) = str_join sep xs @ sep @ y"
  by (induction sep xs rule: str_join.induct) auto

text \<open>
  Claim C5. The statement \<open>_build_sql\<close> compiles is \<open>SELECT columns FROM table\<close>,
  then \<open>WHERE\<close> with the filters joined by \<open>AND\<close> if there is a filter, then
  \<open>ORDER BY\<close> if an order is set, then \<open>LIMIT\<close>, then \<open>OFFSET\<close>, each clause
  after a single space; with an offset and no limit, \<open>LIMIT -1\<close> stands before
  \<open>OFFSET\<close>. The parameters are those of the filters.
\<close>

theorem build_sql_clause_order:
  "Query_build_sql self s =
     (case snapshot s self of
        (fs, ps, ob, lim, off) \<Rightarrow>
          (''SELECT '' @
             str_join '', '' (map (\<lambda>nf. name (snd nf)) (m_fields (model_class (get_query s self)))) @
             '' FROM '' @ m_table (model_class (get_query s self)) @
           (if fs = [] then [] else '' WHERE '' @ str_join '' AND '' fs) @
           (case ob of None \<Rightarrow> [] | Some x \<Rightarrow> if x = [] then [] else '' ORDER BY '' @ x) @
           (case lim of
              Some n \<Rightarrow> '' LIMIT '' @ str_int n
            | None \<Rightarrow> (case off of None \<Rightarrow> [] | Some k \<Rightarrow> '' LIMIT -1'')) @
           (case off of None \<Rightarrow> [] | Some k \<Rightarrow> '' OFFSET '' @ str_int k),
           ps))"
  by (simp add: Query_build_sql_def snapshot_def Let_def str_join_snoc case_prod_unfold
           split: option.splits)

lemma Tag_registered: "model_fields Tag_decl = Inr Tag"
  by code_simp

lemma Account_registered: "model_fields Account_decl = Inr Account"
  by code_simp








lemma Model_delete_statement:
  "Model_delete E cls inst db =
     (case m_primary_key cls of
        None \<Rightarrow> (Some (NoPrimaryKey (m_name cls)), inst, db)
      | Some pk \<Rightarrow>
          (case execute E db (fst (delete_statement cls pk inst)) (snd (delete_statement cls pk inst)) of
             (Inl e, db') \<Rightarrow> (Some e, inst, db')
           | (Inr cur, db') \<Rightarrow>
               if nullable pk then (None, AList.update (attr_name pk) VNone inst, db')
               else (Some (CannotBeNone (attr_name pk)), inst, db')))"
  by (auto simp: Model_delete_def delete_statement_def Let_def field_set_def Field_set_def
        BooleanField_set_def split: option.splits prod.splits sum.splits kind.splits)

lemma delete_resets_nullable_key:
  assumes "m_primary_key cls = Some pk" and "nullable pk"
    and "execute E db (fst (delete_statement cls pk inst)) (snd (delete_statement cls pk inst))
           = (Inr cur, db')"
  shows "Model_delete E cls inst db = (None, AList.update (attr_name pk) VNone inst, db')"
    and "field_get pk (AList.update (attr_name pk) VNone inst) = VNone"
  using assms
  by (simp_all add: Model_delete_statement field_get_def dict_get_def AList.update_conv')

text \<open>
  Claim C8, at the failing input. \<open>Account\<close> declares its primary key as
  \<open>IntegerField(primary_key=True, nullable=False)\<close>. Deleting the account 7 executes
  \<open>DELETE FROM accounts WHERE id = ?\<close> with the key; the reset of the key that follows
  goes through the field's setter, which raises the not-nullable error: \<open>delete\<close> ends
  with that error and the key is still 7.
\<close>

theorem delete_not_nullable_key_raises:
  "Model_init Account [(''id'', VInt 7), (''owner'', VStr ''ann'')] =
     Inr [(''id'', VInt 7), (''owner'', VStr ''ann'')] \<and>
   Model_delete recording_engine Account [(''id'', VInt 7), (''owner'', VStr ''ann'')] fresh_db =
     (Some (CannotBeNone ''id''),
      [(''id'', VInt 7), (''owner'', VStr ''ann'')],
      \<lparr>cursor_open = True,
       conn = \<lparr>executed = [(''DELETE FROM accounts WHERE id = ?'', [VInt 7])],
               rowid = 1, held_rows = []\<rparr>\<rparr>)"
  by (simp add: Account_def eval_defs Model_delete_def execute_def
        recording_engine_def fresh_db_def)












text \<open>
  Claim C5, an instance: the statement of
  \<open>TestModel.select(db).filter_by(active=True).order_by('name').offset(2)\<close>, a query with
  an offset and no limit.
\<close>

theorem build_sql_clause_order_witness:
  "Query_build_sql 0
     \<lparr>queries = [\<lparr>model_class = TestModel, q_filters = 0, q_filter_params = 0,
                  q_order_by = Some ''name ASC'', q_limit = None, q_offset = Some 2\<rparr>],
      str_lists = [[''active = ?'']], val_lists = [[VBool True]]\<rparr> =
     (''SELECT id, name, description, active, price FROM test_models WHERE active = ? ORDER BY name ASC LIMIT -1 OFFSET 2'',
      [VBool True])"
proof -
  have "str_int 2 = ''2''" by code_simp
  then show ?thesis
    using build_sql_clause_order[of 0
      "\<lparr>queries = [\<lparr>model_class = TestModel, q_filters = 0, q_filter_params = 0,
                  q_order_by = Some ''name ASC'', q_limit = None, q_offset = Some 2\<rparr>],
      str_lists = [[''active = ?'']], val_lists = [[VBool True]]\<rparr>"]
    by (simp add: snapshot_def store_defs TestModel_def mk_field_def)
qed

end
